theory Spec2Isabelle
  imports Main "HOL-Library.Word" "HOL-Library.Sublist"
begin

unbundle bit_operations_syntax

section \<open>The opcode header generator \<open>agx_opcodes.h.py\<close>\<close>

text \<open>
  The program is a Mako template and one statement that renders it with the three schema
  inputs \<open>opcodes\<close>, \<open>immediates\<close> and \<open>enums\<close> and prints the result. The template
  is embedded as the function it compiles to: literal text is written to an output buffer,
  a \<open>% for\<close> line is a loop over its body (the control line itself emits nothing, not even
  its line break), \<open>${e}\<close> writes \<open>str(e)\<close>, and the \<open><% assert ... %>\<close> block runs
  where it stands. An exception leaves \<open>render\<close> without a value, so \<open>print\<close> never runs.
\<close>

subsection \<open>Python values\<close>

text \<open>
  Schema names are ASCII identifiers; a \<open>string\<close> holds their characters. A Python
  \<open>dict\<close> keeps insertion order and has no repeated key: it is an association list in that
  order, and \<open>is_dict\<close> says that the keys are distinct.
\<close>

type_synonym ('k, 'v) dict = "('k \<times> 'v) list"

definition is_dict :: "('k, 'v) dict \<Rightarrow> bool" where
  "is_dict d = distinct (map fst d)"

datatype error = AssertionError | KeyError

definition keys :: "('k, 'v) dict \<Rightarrow> 'k list" where
  "keys d = map fst d"

definition items :: "('k, 'v) dict \<Rightarrow> ('k \<times> 'v) list" where
  "items d = d"

definition getitem :: "('k, 'v) dict \<Rightarrow> 'k \<Rightarrow> error + 'v" where
  "getitem d k = (case map_of d k of None \<Rightarrow> Inl KeyError | Some v \<Rightarrow> Inr v)"

definition nl :: string where
  "nl = [CHR 0x0A]"

text \<open>\<open>str.upper()\<close> on ASCII text: the 26 lower-case letters change, nothing else does.\<close>

definition upper_char :: "char \<Rightarrow> char" where
  "upper_char c =
     (case map_of (zip ''abcdefghijklmnopqrstuvwxyz'' ''ABCDEFGHIJKLMNOPQRSTUVWXYZ'') c of
        None \<Rightarrow> c
      | Some u \<Rightarrow> u)"

definition upper :: "string \<Rightarrow> string" where
  "upper s = map upper_char s"

text \<open>\<open>s.replace(old, new)\<close> for one-character \<open>old\<close> and \<open>new\<close>.\<close>

definition replace :: "char \<Rightarrow> char \<Rightarrow> string \<Rightarrow> string" where
  "replace old new s = map (\<lambda>c. if c = old then new else c) s"

text \<open>\<open>str(n)\<close> of an integer: decimal digits, a minus sign for a negative one.\<close>

fun str_nat :: "nat \<Rightarrow> string" where
  "str_nat n =
     (if n < 10 then [''0123456789'' ! n]
      else str_nat (n div 10) @ [''0123456789'' ! (n mod 10)])"

definition str_int :: "int \<Rightarrow> string" where
  "str_int k = (if k < 0 then ''-'' @ str_nat (nat (- k)) else str_nat (nat k))"

subsection \<open>The template\<close>

text \<open>\<open>text_lines\<close> is a run of literal template lines, each with its line break.\<close>

definition text_lines :: "string list \<Rightarrow> string" where
  "text_lines ls = concat (map (\<lambda>l. l @ nl) ls)"

definition writer :: "string \<Rightarrow> string \<Rightarrow> string" where
  "writer s buf = buf @ s"

definition header_guard :: string where
  \<open>header_guard = text_lines
     [''/*'',
      '' * Copyright 2021 Alyssa Rosenzweig'',
      '' * SPDX-License-Identifier: MIT'',
      '' */'',
      '''',
      ''#ifndef _AGX_OPCODES_'',
      ''#define _AGX_OPCODES_'',
      '''',
      ''#include <stdbool.h>'',
      ''#include <stdint.h>'',
      ''#include "util/macros.h"'',
      '''']\<close>

definition schedule_class_text :: string where
  "schedule_class_text = text_lines
     [''enum agx_schedule_class {'',
      ''   AGX_SCHEDULE_CLASS_INVALID,'',
      ''   AGX_SCHEDULE_CLASS_NONE,'',
      ''   AGX_SCHEDULE_CLASS_LOAD,'',
      ''   AGX_SCHEDULE_CLASS_STORE,'',
      ''   AGX_SCHEDULE_CLASS_ATOMIC,'',
      ''   AGX_SCHEDULE_CLASS_COVERAGE,'',
      ''   AGX_SCHEDULE_CLASS_PRELOAD,'',
      ''   AGX_SCHEDULE_CLASS_BARRIER,'',
      ''};'',
      '''']"

definition listing_comment :: string where
  "listing_comment = text_lines [''/* Listing of opcodes */'', '''']"

definition runtime_comment :: string where
  "runtime_comment = text_lines
     ['''', ''/* Runtime accessible info on each defined opcode */'', '''']"

definition encoding_text :: string where
  "encoding_text = text_lines
     [''struct agx_encoding {'',
      ''   uint64_t exact;'',
      ''   unsigned length_short : 4;'',
      ''   bool extensible : 1;'',
      ''};'',
      '''']"

definition opcode_info_text :: string where
  "opcode_info_text = text_lines
     [''struct agx_opcode_info {'',
      ''   const char *name;'',
      ''   unsigned nr_srcs;'',
      ''   unsigned nr_dests;'',
      ''   uint64_t immediates;'',
      ''   struct agx_encoding encoding;'',
      ''   enum agx_schedule_class schedule_class;'',
      ''   bool is_float : 1;'',
      ''   bool can_eliminate : 1;'',
      ''   bool can_reorder : 1;'',
      ''};'',
      '''']"

definition extern_text :: string where
  "extern_text = text_lines
     [''extern const struct agx_opcode_info agx_opcodes_info[AGX_NUM_OPCODES];'',
      '''']"

definition endif_text :: string where
  "endif_text = text_lines [''#endif'']"

text \<open>
  \<^verbatim>\<open>
  enum agx_opcode {
  % for op in opcodes:
     AGX_OPCODE_${op.upper()},
  % endfor
     AGX_NUM_OPCODES
  };
  \<close>
\<close>

definition write_opcodes :: "string list \<Rightarrow> string \<Rightarrow> string" where
  "write_opcodes opcodes buf0 =
     (let buf = writer (text_lines [''enum agx_opcode {'']) buf0;
          buf = fold (\<lambda>op. writer (''   AGX_OPCODE_'' @ upper op @ '','' @ nl)) opcodes buf;
          buf = writer (text_lines [''   AGX_NUM_OPCODES'', ''};'', '''']) buf
      in buf)"

text \<open>
  The body of \<open>% for name in enums:\<close>. Both inner \<open>for\<close> lines read \<open>enums[name].items()\<close>;
  each read is a lookup that raises \<open>KeyError\<close> on a missing key.
\<close>

definition write_enum ::
    "(string, (int, string) dict) dict \<Rightarrow> string \<Rightarrow> string \<Rightarrow> error + string" where
  \<open>write_enum enums name buf0 =
     (let buf = writer (''enum agx_'' @ name @ '' {'' @ nl) buf0
      in case getitem enums name of
           Inl e \<Rightarrow> Inl e
         | Inr d1 \<Rightarrow>
             (let buf = fold (\<lambda>(k, v). writer
                          (''   AGX_'' @ upper name @ ''_'' @ upper (replace CHR ''.'' CHR ''_'' v)
                             @ '' = '' @ str_int k @ '','' @ nl)) (items d1) buf;
                  buf = writer (text_lines [''};'', '''', ''static inline const char *'']) buf;
                  buf = writer (''agx_'' @ name @ ''_as_str(enum agx_'' @ name @ '' x)'' @ nl) buf;
                  buf = writer (text_lines [''{'', ''    switch (x) {'']) buf
              in case getitem enums name of
                   Inl e \<Rightarrow> Inl e
                 | Inr d2 \<Rightarrow>
                     (let buf = fold (\<lambda>(k, v). writer
                                  (''    case AGX_'' @ upper name @ ''_''
                                     @ upper (replace CHR ''.'' CHR ''_'' v)
                                     @ '': return "'' @ v @ ''";'' @ nl)) (items d2) buf;
                          buf = writer (text_lines
                                  [''    default: UNREACHABLE("Nonexhaustive enum");'',
                                   ''    }'',
                                   ''}'',
                                   '''']) buf
                      in Inr buf)))\<close>

fun write_enums ::
    "(string, (int, string) dict) dict \<Rightarrow> string list \<Rightarrow> string \<Rightarrow> error + string" where
  "write_enums enums [] buf = Inr buf"
| "write_enums enums (name # names) buf =
     (case write_enum enums name buf of
        Inl e \<Rightarrow> Inl e
      | Inr buf' \<Rightarrow> write_enums enums names buf')"

text \<open>
  \<^verbatim>\<open>
  enum agx_immediate {
  % for i, imm in enumerate(immediates):
     AGX_IMMEDIATE_${imm.upper()} = (1ull << ${i}),
  % endfor
  };
  \<close>
\<close>

definition write_immediates :: "string list \<Rightarrow> string \<Rightarrow> string" where
  "write_immediates immediates buf0 =
     (let buf = writer (text_lines [''enum agx_immediate {'']) buf0;
          buf = fold (\<lambda>(i, imm). writer
                  (''   AGX_IMMEDIATE_'' @ upper imm @ '' = (1ull << '' @ str_nat i @ ''),'' @ nl))
                  (enumerate 0 immediates) buf;
          buf = writer (text_lines [''};'', '''']) buf
      in buf)"

text \<open>
  \<open>Template(template).render(opcodes=..., immediates=..., enums=...)\<close>: the template from
  its first line to its last. The assertion stands between the comment on runtime info and
  the immediate enumeration; what was written before it is lost with the buffer when it fails.
\<close>

definition render ::
    "string list \<Rightarrow> string list \<Rightarrow> (string, (int, string) dict) dict \<Rightarrow> error + string" where
  "render opcodes immediates enums =
     (let buf = writer header_guard [];
          buf = writer schedule_class_text buf;
          buf = writer listing_comment buf;
          buf = write_opcodes opcodes buf
      in case write_enums enums (keys enums) buf of
           Inl e \<Rightarrow> Inl e
         | Inr buf \<Rightarrow>
             (let buf = writer runtime_comment buf
              in if \<not> length immediates < 64 then Inl AssertionError
                 else
                   (let buf = writer (text_lines ['''', '''']) buf;
                        buf = write_immediates immediates buf;
                        buf = writer encoding_text buf;
                        buf = writer opcode_info_text buf;
                        buf = writer extern_text buf;
                        buf = writer endif_text buf
                    in Inr buf)))"

text \<open>
  The module's last statement, \<open>print(Template(template).render(...))\<close>: what reaches
  standard output and the exception the run ends with, if any. \<open>print\<close> adds a line break.
\<close>

record process =
  stdout :: string
  raised :: "error option"

definition main ::
    "string list \<Rightarrow> string list \<Rightarrow> (string, (int, string) dict) dict \<Rightarrow> process" where
  "main opcodes immediates enums =
     (case render opcodes immediates enums of
        Inl e \<Rightarrow> \<lparr>stdout = [], raised = Some e\<rparr>
      | Inr text \<Rightarrow> \<lparr>stdout = text @ nl, raised = None\<rparr>)"

subsection \<open>The declarations the artifact holds\<close>

text \<open>
  The artifact is C text. To speak of the value of an enumerant or of what a generated
  function returns, the enumerations and the \<open>switch\<close> the template writes are given
  as data, with the text they are printed as; the lemmas below show that \<open>render\<close> writes
  exactly that text. An enumerator has no initialiser (\<open>Implicit\<close>: the value after the
  previous one, 0 for the first), an integer (\<open>= k\<close>) or the shift \<open>(1ull << i)\<close>, a
  64-bit unsigned value. The shift is only written for positions of a list that has passed
  the assertion, so \<open>i\<close> stays below 64, where the shift is defined in C.
\<close>

datatype c_init = Implicit | IntConst int | Shl1ull nat

type_synonym c_enumerator = "string \<times> c_init"

fun print_init :: "c_init \<Rightarrow> string" where
  "print_init Implicit = []"
| "print_init (IntConst k) = '' = '' @ str_int k"
| "print_init (Shl1ull i) = '' = (1ull << '' @ str_nat i @ '')''"

definition print_enumerator :: "c_enumerator \<Rightarrow> string" where
  "print_enumerator e = ''   '' @ fst e @ print_init (snd e)"

text \<open>
  \<open>print_enum tag es final\<close>: every enumerator of \<open>es\<close> is followed by a comma; \<open>final\<close>, when
  there is one, is a last enumerator with no comma after it.
\<close>

definition print_enum :: "string \<Rightarrow> c_enumerator list \<Rightarrow> c_enumerator option \<Rightarrow> string" where
  "print_enum tag es final =
     ''enum '' @ tag @ '' {'' @ nl
       @ concat (map (\<lambda>e. print_enumerator e @ '','' @ nl) es)
       @ (case final of None \<Rightarrow> [] | Some e \<Rightarrow> print_enumerator e @ nl)
       @ ''};'' @ nl"

definition all_enumerators :: "c_enumerator list \<Rightarrow> c_enumerator option \<Rightarrow> c_enumerator list" where
  "all_enumerators es final = es @ (case final of None \<Rightarrow> [] | Some e \<Rightarrow> [e])"

definition shl1ull :: "nat \<Rightarrow> 64 word" where
  "shl1ull i = push_bit i 1"

fun init_value :: "int \<Rightarrow> c_init \<Rightarrow> int" where
  "init_value nxt Implicit = nxt"
| "init_value nxt (IntConst k) = k"
| "init_value nxt (Shl1ull i) = uint (shl1ull i)"

fun enum_values :: "int \<Rightarrow> c_enumerator list \<Rightarrow> (string \<times> int) list" where
  "enum_values nxt [] = []"
| "enum_values nxt (e # es) =
     (fst e, init_value nxt (snd e)) # enum_values (init_value nxt (snd e) + 1) es"

definition schedule_class_enum :: "c_enumerator list" where
  "schedule_class_enum = map (\<lambda>n. (n, Implicit))
     [''AGX_SCHEDULE_CLASS_INVALID'',
      ''AGX_SCHEDULE_CLASS_NONE'',
      ''AGX_SCHEDULE_CLASS_LOAD'',
      ''AGX_SCHEDULE_CLASS_STORE'',
      ''AGX_SCHEDULE_CLASS_ATOMIC'',
      ''AGX_SCHEDULE_CLASS_COVERAGE'',
      ''AGX_SCHEDULE_CLASS_PRELOAD'',
      ''AGX_SCHEDULE_CLASS_BARRIER'']"

definition opcode_enumerant :: "string \<Rightarrow> string" where
  "opcode_enumerant op = ''AGX_OPCODE_'' @ upper op"

definition opcode_enum :: "string list \<Rightarrow> c_enumerator list" where
  "opcode_enum opcodes = map (\<lambda>op. (opcode_enumerant op, Implicit)) opcodes"

definition num_opcodes :: c_enumerator where
  "num_opcodes = (''AGX_NUM_OPCODES'', Implicit)"

text \<open>The label of an enum group as it appears in an enumerant: dots replaced, upper-cased.\<close>

definition normalized :: "string \<Rightarrow> string" where
  "normalized v = upper (replace CHR ''.'' CHR ''_'' v)"

definition enumerant :: "string \<Rightarrow> string \<Rightarrow> string" where
  "enumerant name v = ''AGX_'' @ upper name @ ''_'' @ normalized v"

definition group_enum :: "string \<Rightarrow> (int, string) dict \<Rightarrow> c_enumerator list" where
  "group_enum name d = map (\<lambda>(k, v). (enumerant name v, IntConst k)) (items d)"

definition immediate_enumerant :: "string \<Rightarrow> string" where
  "immediate_enumerant imm = ''AGX_IMMEDIATE_'' @ upper imm"

definition immediate_enum :: "string list \<Rightarrow> c_enumerator list" where
  "immediate_enum immediates =
     map (\<lambda>(i, imm). (immediate_enumerant imm, Shl1ull i)) (enumerate 0 immediates)"

text \<open>
  The reflection function \<open>agx_<name>_as_str\<close>: one \<open>case <enumerant>: return "<v>";\<close>
  for each item, then \<open>default: UNREACHABLE("Nonexhaustive enum");\<close>.
\<close>

type_synonym c_case = "string \<times> string"

definition group_cases :: "string \<Rightarrow> (int, string) dict \<Rightarrow> c_case list" where
  "group_cases name d = map (\<lambda>(k, v). (enumerant name v, v)) (items d)"

definition print_as_str :: "string \<Rightarrow> c_case list \<Rightarrow> string" where
  \<open>print_as_str name cs =
     text_lines [''static inline const char *'']
       @ ''agx_'' @ name @ ''_as_str(enum agx_'' @ name @ '' x)'' @ nl
       @ text_lines [''{'', ''    switch (x) {'']
       @ concat (map (\<lambda>c. ''    case '' @ fst c @ '': return "'' @ snd c @ ''";'' @ nl) cs)
       @ text_lines [''    default: UNREACHABLE("Nonexhaustive enum");'', ''    }'', ''}'']\<close>

text \<open>
  Modelled from the spec: the macro \<open>UNREACHABLE\<close> of \<open>util/macros.h\<close>, which is not part of
  the sources at hand. The spec has the reflection function signal an unreachable-state
  error for a value outside the declared set instead of returning a default, so reaching
  the macro ends the call with \<open>Unreachable\<close> and the macro's message.

  A \<open>switch\<close> runs the first case whose constant has the value switched on; the constant of
  a case is an enumerant, whose value the enumeration gives. The literal \<open>"<v>"\<close> is read
  as the text between its quotes.
\<close>

datatype c_result = Returns string | Unreachable string

definition run_switch :: "(string \<times> int) list \<Rightarrow> c_case list \<Rightarrow> int \<Rightarrow> c_result" where
  "run_switch env cs x =
     (case find (\<lambda>c. map_of env (fst c) = Some x) cs of
        None \<Rightarrow> Unreachable ''Nonexhaustive enum''
      | Some c \<Rightarrow> Returns (snd c))"

definition agx_as_str :: "string \<Rightarrow> (int, string) dict \<Rightarrow> int \<Rightarrow> c_result" where
  "agx_as_str name d x = run_switch (enum_values 0 (group_enum name d)) (group_cases name d) x"

text \<open>
  The bits of the 64-bit mask that the flags of the immediate enumeration occupy: the
  bitwise OR of \<open>1ull << i\<close> over the positions of the list.
\<close>

definition used_bits :: "string list \<Rightarrow> 64 word" where
  "used_bits immediates = fold (\<lambda>(i, imm) m. m OR shl1ull i) (enumerate 0 immediates) 0"

subsection \<open>The sections of the artifact\<close>

text \<open>
  The text of each section, in the order in which \<open>render\<close> writes them: the licence
  comment with the header guard and the includes, the schedule classes, the opcodes, the
  enum groups, the immediates, the two records, the table declaration, \<open>#endif\<close>.
\<close>

definition group_text :: "string \<Rightarrow> (int, string) dict \<Rightarrow> string" where
  "group_text name d =
     print_enum (''agx_'' @ name) (group_enum name d) None @ nl
       @ print_as_str name (group_cases name d) @ nl"

definition opcode_section :: "string list \<Rightarrow> string" where
  "opcode_section opcodes =
     listing_comment @ print_enum ''agx_opcode'' (opcode_enum opcodes) (Some num_opcodes) @ nl"

definition groups_section :: "(string, (int, string) dict) dict \<Rightarrow> string" where
  "groups_section enums = concat (map (\<lambda>(name, d). group_text name d) enums)"

definition immediate_section :: "string list \<Rightarrow> string" where
  "immediate_section immediates =
     runtime_comment @ nl @ nl
       @ print_enum ''agx_immediate'' (immediate_enum immediates) None @ nl"

definition artifact ::
    "string list \<Rightarrow> string list \<Rightarrow> (string, (int, string) dict) dict \<Rightarrow> string" where
  "artifact opcodes immediates enums =
     header_guard @ schedule_class_text @ opcode_section opcodes @ groups_section enums
       @ immediate_section immediates @ encoding_text @ opcode_info_text @ extern_text
       @ endif_text"

subsection \<open>Reading the artifact line by line\<close>

text \<open>
  \<open>splitlines\<close> cuts a text at its line breaks, as \<open>str.splitlines\<close> does for text
  whose only line boundary is the line feed. \<open>in_order ms ls\<close> holds when the lines \<open>ms\<close>
  occur among the lines \<open>ls\<close> in the order given, each after the one before it.
\<close>

fun lines_from :: "string \<Rightarrow> string \<Rightarrow> string list" where
  "lines_from cur [] = (if cur = [] then [] else [cur])"
| "lines_from cur (c # cs) =
     (if c = CHR 0x0A then cur # lines_from [] cs else lines_from (cur @ [c]) cs)"

definition splitlines :: "string \<Rightarrow> string list" where
  "splitlines s = lines_from [] s"

fun in_order :: "'a list \<Rightarrow> 'a list \<Rightarrow> bool" where
  "in_order [] ls = True"
| "in_order (m # ms) [] = False"
| "in_order (m # ms) (l # ls) = (if m = l then in_order ms ls else in_order (m # ms) ls)"

text \<open>A text is complete when it is empty or ends with a line break.\<close>

definition complete :: "string \<Rightarrow> bool" where
  "complete s = (s = [] \<or> last s = CHR 0x0A)"

text \<open>The first line of each section; for an enum group, of its enumeration and its function.\<close>

definition group_marks :: "string \<Rightarrow> string list" where
  "group_marks name =
     [''enum agx_'' @ name @ '' {'', ''agx_'' @ name @ ''_as_str(enum agx_'' @ name @ '' x)'']"

definition section_marks :: "(string, (int, string) dict) dict \<Rightarrow> string list" where
  "section_marks enums =
     [''#ifndef _AGX_OPCODES_'', ''enum agx_schedule_class {'', ''enum agx_opcode {'']
       @ concat (map group_marks (keys enums))
       @ [''enum agx_immediate {'', ''struct agx_encoding {'', ''struct agx_opcode_info {'',
          ''extern const struct agx_opcode_info agx_opcodes_info[AGX_NUM_OPCODES];'']"

text \<open>
  The order of the sections as the specification lists them, which differs from
  \<open>section_marks\<close> in the place of the opcode enumeration: after the two records and before
  the table declaration.
\<close>

definition spec_section_marks :: "(string, (int, string) dict) dict \<Rightarrow> string list" where
  "spec_section_marks enums =
     [''#ifndef _AGX_OPCODES_'', ''enum agx_schedule_class {'']
       @ concat (map group_marks (keys enums))
       @ [''enum agx_immediate {'', ''struct agx_encoding {'', ''struct agx_opcode_info {'',
          ''enum agx_opcode {'',
          ''extern const struct agx_opcode_info agx_opcodes_info[AGX_NUM_OPCODES];'']"

subsection \<open>Schemas the specification calls invalid\<close>

text \<open>
  An opcode name that is empty or occurs twice, or an enum group two of whose labels are
  the same once normalized. (A group cannot hold one integer key twice: it is a \<open>dict\<close>.)
\<close>

definition name_defect :: "string list \<Rightarrow> (string, (int, string) dict) dict \<Rightarrow> bool" where
  "name_defect opcodes enums =
     ([] \<in> set opcodes \<or> \<not> distinct opcodes
      \<or> (\<exists>g \<in> set enums. \<not> distinct (map (\<lambda>(k, v). normalized v) (items (snd g)))))"

section \<open>Writing the template out\<close>

lemma fold_writer: "fold (\<lambda>x. writer (f x)) xs buf = buf @ concat (map f xs)"
  by (induction xs arbitrary: buf) (simp_all add: writer_def)

lemma map_of_keys: "name \<in> set (keys enums) \<Longrightarrow> \<exists>d. map_of enums name = Some d"
  unfolding keys_def by (cases "map_of enums name") (auto simp: map_of_eq_None_iff)

lemma getitem_keys: "name \<in> set (keys enums) \<Longrightarrow> \<exists>d. getitem enums name = Inr d"
  using map_of_keys[of name enums] by (auto simp: getitem_def)

lemma getitem_is_dict:
  "is_dict enums \<Longrightarrow> (name, d) \<in> set enums \<Longrightarrow> getitem enums name = Inr d"
  by (simp add: getitem_def is_dict_def)

lemma write_opcodes_text:
  "write_opcodes opcodes buf =
     buf @ print_enum ''agx_opcode'' (opcode_enum opcodes) (Some num_opcodes) @ nl"
  by (simp add: write_opcodes_def Let_def fold_writer writer_def print_enum_def opcode_enum_def
      num_opcodes_def print_enumerator_def opcode_enumerant_def text_lines_def comp_def)

lemma write_enum_text:
  "getitem enums name = Inr d \<Longrightarrow> write_enum enums name buf = Inr (buf @ group_text name d)"
  by (simp add: write_enum_def Let_def fold_writer writer_def print_enum_def group_enum_def
      group_cases_def print_as_str_def group_text_def items_def print_enumerator_def
      enumerant_def normalized_def text_lines_def comp_def case_prod_unfold)

lemma write_enums_ok:
  "set names \<subseteq> set (keys enums) \<Longrightarrow> \<exists>buf'. write_enums enums names buf = Inr buf'"
proof (induction names arbitrary: buf)
  case Nil
  then show ?case by simp
next
  case (Cons name names)
  then obtain d where "getitem enums name = Inr d"
    using getitem_keys[of name enums] by auto
  then show ?case using Cons by (simp add: write_enum_text)
qed

lemma write_enums_text:
  "is_dict enums \<Longrightarrow> set es \<subseteq> set enums \<Longrightarrow>
   write_enums enums (keys es) buf = Inr (buf @ groups_section es)"
proof (induction es arbitrary: buf)
  case Nil
  then show ?case by (simp add: keys_def groups_section_def)
next
  case (Cons e es)
  obtain name d where e: "e = (name, d)" by (cases e)
  with Cons.prems have "getitem enums name = Inr d" by (simp add: getitem_is_dict)
  then show ?case using Cons e by (simp add: keys_def write_enum_text groups_section_def)
qed

lemma write_immediates_text:
  "write_immediates immediates buf =
     buf @ print_enum ''agx_immediate'' (immediate_enum immediates) None @ nl"
  by (simp add: write_immediates_def Let_def fold_writer writer_def print_enum_def
      immediate_enum_def print_enumerator_def immediate_enumerant_def text_lines_def comp_def
      case_prod_unfold)

lemma render_fails:
  assumes "\<not> length immediates < 64"
  shows "render opcodes immediates enums = Inl AssertionError"
proof -
  obtain buf' where "write_enums enums (keys enums)
      (write_opcodes opcodes (writer listing_comment
        (writer schedule_class_text (writer header_guard [])))) = Inr buf'"
    using write_enums_ok[of "keys enums" enums] by blast
  with assms show ?thesis by (simp add: render_def Let_def)
qed

lemma render_succeeds:
  assumes "length immediates < 64"
  shows "\<exists>text. render opcodes immediates enums = Inr text"
proof -
  obtain buf' where "write_enums enums (keys enums)
      (write_opcodes opcodes (writer listing_comment
        (writer schedule_class_text (writer header_guard [])))) = Inr buf'"
    using write_enums_ok[of "keys enums" enums] by blast
  with assms show ?thesis by (simp add: render_def Let_def)
qed

lemma render_artifact:
  assumes "is_dict enums" and "length immediates < 64"
  shows "render opcodes immediates enums = Inr (artifact opcodes immediates enums)"
proof -
  have "write_enums enums (keys enums) buf = Inr (buf @ groups_section enums)" for buf
    using write_enums_text[OF assms(1), of enums] by simp
  with assms(2) show ?thesis
    by (simp add: render_def Let_def write_opcodes_text write_immediates_text writer_def
        artifact_def opcode_section_def immediate_section_def text_lines_def)
qed

lemma main_artifact:
  assumes "is_dict enums" and "length immediates < 64"
  shows "main opcodes immediates enums =
     \<lparr>stdout = artifact opcodes immediates enums @ nl, raised = None\<rparr>"
  using render_artifact[OF assms] by (simp add: main_def)

lemma main_fails:
  assumes "\<not> length immediates < 64"
  shows "main opcodes immediates enums = \<lparr>stdout = [], raised = Some AssertionError\<rparr>"
  using render_fails[OF assms] by (simp add: main_def)

lemma write_enum_prefix:
  "write_enum enums name buf = Inr buf' \<Longrightarrow> \<exists>s. buf' = buf @ s"
proof (cases "getitem enums name")
  case (Inl e)
  assume "write_enum enums name buf = Inr buf'"
  with Inl show ?thesis by (simp add: write_enum_def)
next
  case (Inr d)
  assume "write_enum enums name buf = Inr buf'"
  with write_enum_text[OF Inr, of buf] show ?thesis by simp
qed

lemma write_enums_prefix:
  "write_enums enums names buf = Inr buf' \<Longrightarrow> \<exists>s. buf' = buf @ s"
proof (induction names arbitrary: buf)
  case Nil
  then show ?case by simp
next
  case (Cons name names)
  then obtain b where b: "write_enum enums name buf = Inr b" and r: "write_enums enums names b = Inr buf'"
    by (auto split: sum.splits)
  from write_enum_prefix[OF b] Cons.IH[OF r] show ?case by auto
qed

lemma render_prefix:
  assumes "length immediates < 64"
  shows "\<exists>rest. render opcodes immediates enums = Inr (header_guard @ schedule_class_text @ rest)"
proof -
  let ?b = "write_opcodes opcodes (writer listing_comment
        (writer schedule_class_text (writer header_guard [])))"
  obtain buf' where w: "write_enums enums (keys enums) ?b = Inr buf'"
    using write_enums_ok[of "keys enums" enums] by blast
  then obtain s where "buf' = ?b @ s" using write_enums_prefix by blast
  with w assms show ?thesis
    by (simp add: render_def Let_def write_opcodes_text write_immediates_text writer_def)
qed


lemma groups_section_split:
  "(name, d) \<in> set enums \<Longrightarrow>
   \<exists>pre post. groups_section enums = pre @ group_text name d @ post"
proof -
  assume "(name, d) \<in> set enums"
  then obtain es1 es2 where "enums = es1 @ (name, d) # es2"
    by (auto dest: split_list)
  then have "groups_section enums =
      groups_section es1 @ group_text name d @ groups_section es2"
    by (simp add: groups_section_def)
  then show ?thesis by blast
qed

lemma render_holds_group:
  assumes "is_dict enums" and "(name, d) \<in> set enums" and "length immediates < 64"
  shows "\<exists>pre post. render opcodes immediates enums =
           Inr (pre @ print_enum (''agx_'' @ name) (group_enum name d) None @ nl
                  @ print_as_str name (group_cases name d) @ nl @ post)"
proof -
  obtain pre post where "groups_section enums = pre @ group_text name d @ post"
    using groups_section_split[OF assms(2)] by blast
  then have "artifact opcodes immediates enums =
      (header_guard @ schedule_class_text @ opcode_section opcodes @ pre)
        @ print_enum (''agx_'' @ name) (group_enum name d) None @ nl
        @ print_as_str name (group_cases name d) @ nl
        @ (post @ immediate_section immediates @ encoding_text @ opcode_info_text
             @ extern_text @ endif_text)"
    by (simp add: artifact_def group_text_def)
  then show ?thesis
    using render_artifact[OF assms(1,3), of opcodes] by metis
qed

section \<open>Values of the generated enumerations\<close>

lemma enum_values_implicit:
  "enum_values n (map (\<lambda>x. (f x, Implicit)) xs @ rest) =
     map (\<lambda>i. (f (xs ! i), n + int i)) [0..<length xs] @ enum_values (n + int (length xs)) rest"
proof (induction xs arbitrary: n)
  case Nil
  then show ?case by simp
next
  case (Cons x xs)
  have "map (\<lambda>i. (f ((x # xs) ! i), n + int i)) [0..<length (x # xs)] =
        (f x, n) # map (\<lambda>i. (f (xs ! i), n + 1 + int i)) [0..<length xs]"
    by (simp add: upt_conv_Cons map_Suc_upt[symmetric] del: upt_Suc)
  then show ?case using Cons[of "n + 1"] by (simp add: add.assoc)
qed

lemma enum_values_consts:
  "enum_values n (map (\<lambda>(k, v). (f v, IntConst k)) d) = map (\<lambda>(k, v). (f v, k)) d"
  by (induction d arbitrary: n) auto

lemma enum_values_shifts:
  "enum_values n (map (\<lambda>(i, x). (f x, Shl1ull i)) e) = map (\<lambda>(i, x). (f x, uint (shl1ull i))) e"
  by (induction e arbitrary: n) auto

lemma uint_shl1ull: "i < 64 \<Longrightarrow> uint (shl1ull i) = 2 ^ i"
proof -
  assume "i < 64"
  then have "(0::64 word) < 2 ^ i" by (simp add: word_2p_lem word_size)
  then show ?thesis by (simp add: shl1ull_def uint_2p)
qed

lemma bit_shl1ull: "bit (shl1ull i) j \<longleftrightarrow> j = i \<and> i < 64"
  by (auto simp add: shl1ull_def bit_simps)

lemma shl1ull_disjoint: "i \<noteq> j \<Longrightarrow> shl1ull i AND shl1ull j = 0"
  by (rule bit_word_eqI) (simp add: bit_simps bit_shl1ull)

lemma bit_fold_flags:
  "bit (fold (\<lambda>(i, imm) m. m OR shl1ull i) (enumerate n xs) m0) j \<longleftrightarrow>
     bit m0 j \<or> (n \<le> j \<and> j < n + length xs \<and> j < 64)"
  by (induction xs arbitrary: n m0) (auto simp: bit_simps bit_shl1ull)

lemma bit_used_bits:
  "length immediates < 64 \<Longrightarrow> bit (used_bits immediates) j \<longleftrightarrow> j < length immediates"
  by (auto simp: used_bits_def bit_fold_flags)

lemma used_bits_mask: "length immediates < 64 \<Longrightarrow> used_bits immediates = mask (length immediates)"
  by (rule bit_word_eqI) (simp add: bit_used_bits bit_simps)

lemma immediate_values:
  "length immediates < 64 \<Longrightarrow>
   enum_values 0 (immediate_enum immediates) =
     map (\<lambda>i. (immediate_enumerant (immediates ! i), 2 ^ i)) [0..<length immediates]"
  by (auto simp: immediate_enum_def enum_values_shifts enumerate_eq_zip uint_shl1ull
      intro!: nth_equalityI)

lemma opcode_values:
  "enum_values 0 (all_enumerators (opcode_enum opcodes) (Some num_opcodes)) =
     map (\<lambda>i. (opcode_enumerant (opcodes ! i), int i)) [0..<length opcodes]
       @ [(''AGX_NUM_OPCODES'', int (length opcodes))]"
  by (simp add: all_enumerators_def opcode_enum_def num_opcodes_def enum_values_implicit)

lemma group_values:
  "enum_values 0 (group_enum name d) = map (\<lambda>(k, v). (enumerant name v, k)) d"
  by (simp add: group_enum_def items_def enum_values_consts)

lemma map_of_group:
  assumes "distinct (map (\<lambda>(k, v). normalized v) d)" and "(k, v) \<in> set d"
  shows "map_of (map (\<lambda>(k, v). (enumerant name v, k)) d) (enumerant name v) = Some k"
proof -
  have "distinct (map fst (map (\<lambda>(k, v). (enumerant name v, k)) d))"
    using assms(1) by (simp add: comp_def case_prod_unfold enumerant_def distinct_map inj_on_def)
  moreover have "(enumerant name v, k) \<in> set (map (\<lambda>(k, v). (enumerant name v, k)) d)"
    using assms(2) by force
  ultimately show ?thesis by (rule map_of_is_SomeI)
qed

lemma find_case:
  assumes "distinct (map fst d)" and "distinct (map (\<lambda>(k, v). normalized v) d)"
    and "(k, v) \<in> set d"
  shows "find (\<lambda>c. map_of (map (\<lambda>(k, v). (enumerant name v, k)) d) (fst c) = Some k)
           (map (\<lambda>(k, v). (enumerant name v, v)) d) = Some (enumerant name v, v)"
proof -
  let ?env = "map (\<lambda>(k, v). (enumerant name v, k)) d"
  have key: "map_of ?env (enumerant name v') = Some k'" if "(k', v') \<in> set d" for k' v'
    using map_of_group[OF assms(2) that] .
  have "\<And>es. set es \<subseteq> set d \<Longrightarrow> (k, v) \<in> set es \<Longrightarrow>
      find (\<lambda>c. map_of ?env (fst c) = Some k) (map (\<lambda>(k, v). (enumerant name v, v)) es)
        = Some (enumerant name v, v)"
  proof -
    fix es show "set es \<subseteq> set d \<Longrightarrow> (k, v) \<in> set es \<Longrightarrow>
      find (\<lambda>c. map_of ?env (fst c) = Some k) (map (\<lambda>(k, v). (enumerant name v, v)) es)
        = Some (enumerant name v, v)"
    proof (induction es)
      case Nil
      then show ?case by simp
    next
      case (Cons e es)
      obtain k' v' where e: "e = (k', v')" by (cases e)
      have in_d: "(k', v') \<in> set d" using Cons.prems e by simp
      show ?case
      proof (cases "k' = k")
        case True
        have "v' = v" using assms(1,3) in_d True by (meson eq_key_imp_eq_value)
        then show ?thesis using e key[OF in_d] True by simp
      next
        case False
        then have "(k, v) \<in> set es" using Cons.prems e by auto
        then show ?thesis using Cons e key[OF in_d] False by simp
      qed
    qed
  qed
  then show ?thesis using assms(3) by blast
qed

lemma find_no_case:
  assumes "x \<notin> fst ` set d"
  shows "find (\<lambda>c. map_of (map (\<lambda>(k, v). (enumerant name v, k)) d) (fst c) = Some x) cs = None"
proof -
  have "map_of (map (\<lambda>(k, v). (enumerant name v, k)) d) s \<noteq> Some x" for s
  proof
    assume "map_of (map (\<lambda>(k, v). (enumerant name v, k)) d) s = Some x"
    then have "(s, x) \<in> set (map (\<lambda>(k, v). (enumerant name v, k)) d)" by (rule map_of_SomeD)
    then show False using assms by force
  qed
  then show ?thesis by (simp add: find_None_iff)
qed


section \<open>Upper-casing and dots\<close>

lemma upper_simps: "upper [] = []" "upper (c # cs) = upper_char c # upper cs"
  by (simp_all add: upper_def)

lemma upper_char_dot: "upper_char c = CHR ''.'' \<longleftrightarrow> c = CHR ''.''"
  by (auto simp: upper_char_def split: if_splits)

lemma upper_char_dot': "CHR ''.'' = upper_char c \<longleftrightarrow> c = CHR ''.''"
  using upper_char_dot[of c] by auto

lemma dot_upper: "CHR ''.'' \<in> set (upper s) \<longleftrightarrow> CHR ''.'' \<in> set s"
  by (induction s) (simp_all add: upper_def upper_char_dot' eq_commute[of _ "CHR ''.''"])

lemma no_dot_normalized: "CHR ''.'' \<notin> set (normalized v)"
  by (auto simp: normalized_def dot_upper replace_def)


section \<open>The artifact of a small schema, line by line\<close>

lemma lines_from_line:
  "CHR 0x0A \<notin> set l \<Longrightarrow> lines_from cur (l @ nl @ s) = (cur @ l) # lines_from [] s"
  by (induction l arbitrary: cur) (auto simp: nl_def)

lemma splitlines_text_lines:
  "list_all (\<lambda>l. CHR 0x0A \<notin> set l) ls \<Longrightarrow> splitlines (text_lines ls @ s) = ls @ splitlines s"
  by (induction ls) (simp_all add: splitlines_def text_lines_def lines_from_line)

lemma splitlines_nl: "splitlines nl = [Nil]"
  by (simp add: splitlines_def nl_def)

lemma small_schema_text:
  \<open>render [''add'', ''mov''] [''imm16''] [(''size'', [(0, ''8''), (1, ''16''), (2, ''32'')])] =
   Inr (text_lines
     [''/*'',
      '' * Copyright 2021 Alyssa Rosenzweig'',
      '' * SPDX-License-Identifier: MIT'',
      '' */'',
      '''',
      ''#ifndef _AGX_OPCODES_'',
      ''#define _AGX_OPCODES_'',
      '''',
      ''#include <stdbool.h>'',
      ''#include <stdint.h>'',
      ''#include "util/macros.h"'',
      '''',
      ''enum agx_schedule_class {'',
      ''   AGX_SCHEDULE_CLASS_INVALID,'',
      ''   AGX_SCHEDULE_CLASS_NONE,'',
      ''   AGX_SCHEDULE_CLASS_LOAD,'',
      ''   AGX_SCHEDULE_CLASS_STORE,'',
      ''   AGX_SCHEDULE_CLASS_ATOMIC,'',
      ''   AGX_SCHEDULE_CLASS_COVERAGE,'',
      ''   AGX_SCHEDULE_CLASS_PRELOAD,'',
      ''   AGX_SCHEDULE_CLASS_BARRIER,'',
      ''};'',
      '''',
      ''/* Listing of opcodes */'',
      '''',
      ''enum agx_opcode {'',
      ''   AGX_OPCODE_ADD,'',
      ''   AGX_OPCODE_MOV,'',
      ''   AGX_NUM_OPCODES'',
      ''};'',
      '''',
      ''enum agx_size {'',
      ''   AGX_SIZE_8 = 0,'',
      ''   AGX_SIZE_16 = 1,'',
      ''   AGX_SIZE_32 = 2,'',
      ''};'',
      '''',
      ''static inline const char *'',
      ''agx_size_as_str(enum agx_size x)'',
      ''{'',
      ''    switch (x) {'',
      ''    case AGX_SIZE_8: return "8";'',
      ''    case AGX_SIZE_16: return "16";'',
      ''    case AGX_SIZE_32: return "32";'',
      ''    default: UNREACHABLE("Nonexhaustive enum");'',
      ''    }'',
      ''}'',
      '''',
      '''',
      ''/* Runtime accessible info on each defined opcode */'',
      '''',
      '''',
      '''',
      ''enum agx_immediate {'',
      ''   AGX_IMMEDIATE_IMM16 = (1ull << 0),'',
      ''};'',
      '''',
      ''struct agx_encoding {'',
      ''   uint64_t exact;'',
      ''   unsigned length_short : 4;'',
      ''   bool extensible : 1;'',
      ''};'',
      '''',
      ''struct agx_opcode_info {'',
      ''   const char *name;'',
      ''   unsigned nr_srcs;'',
      ''   unsigned nr_dests;'',
      ''   uint64_t immediates;'',
      ''   struct agx_encoding encoding;'',
      ''   enum agx_schedule_class schedule_class;'',
      ''   bool is_float : 1;'',
      ''   bool can_eliminate : 1;'',
      ''   bool can_reorder : 1;'',
      ''};'',
      '''',
      ''extern const struct agx_opcode_info agx_opcodes_info[AGX_NUM_OPCODES];'',
      '''',
      ''#endif''])\<close>
  by (simp add: render_def Let_def writer_def write_opcodes_def write_enum_def write_immediates_def
      keys_def items_def getitem_def text_lines_def header_guard_def schedule_class_text_def
      listing_comment_def runtime_comment_def encoding_text_def opcode_info_text_def
      extern_text_def endif_text_def upper_simps upper_char_def replace_def str_int_def nl_def
      enumerate_eq_zip)


section \<open>The first lines of the sections\<close>

lemma in_order_subseq: "in_order ms ls \<longleftrightarrow> subseq ms ls"
  by (induction ms ls rule: in_order.induct) simp_all

lemma in_order_append:
  "in_order ms ls \<Longrightarrow> in_order ms' ls' \<Longrightarrow> in_order (ms @ ms') (ls @ ls')"
  by (simp add: in_order_subseq list_emb_append_mono)

lemma complete_nl: "complete (s @ nl)"
  by (simp add: complete_def nl_def)

lemma complete_append: "complete a \<Longrightarrow> complete b \<Longrightarrow> complete (a @ b)"
  by (cases "b = []") (auto simp: complete_def)

lemma complete_text_lines: "complete (text_lines ls)"
  by (induction ls rule: rev_induct) (simp_all add: text_lines_def complete_def nl_def)

lemma lines_from_complete:
  "a \<noteq> [] \<Longrightarrow> last a = CHR 0x0A \<Longrightarrow> lines_from cur (a @ b) = lines_from cur a @ lines_from [] b"
proof (induction a arbitrary: cur)
  case Nil
  then show ?case by simp
next
  case (Cons c cs)
  show ?case
  proof (cases "cs = []")
    case True
    with Cons.prems show ?thesis by simp
  next
    case False
    with Cons show ?thesis by simp
  qed
qed

lemma splitlines_append:
  "complete a \<Longrightarrow> splitlines (a @ b) = splitlines a @ splitlines b"
  by (cases "a = []") (simp_all add: splitlines_def complete_def lines_from_complete)

lemma splitlines_line:
  "CHR 0x0A \<notin> set l \<Longrightarrow> splitlines (l @ nl @ s) = l # splitlines s"
  by (simp add: splitlines_def lines_from_line)

lemma print_enum_lines:
  "CHR 0x0A \<notin> set tag \<Longrightarrow>
   in_order [''enum '' @ tag @ '' {''] (splitlines (print_enum tag es final @ s))"
proof -
  assume "CHR 0x0A \<notin> set tag"
  then have "CHR 0x0A \<notin> set (''enum '' @ tag @ '' {'')" by simp
  from splitlines_line[OF this]
  show ?thesis by (simp add: print_enum_def)
qed

lemma in_order_single: "m \<in> set ls \<Longrightarrow> in_order [m] ls"
  by (simp add: in_order_subseq subseq_singleton_left)

lemma print_as_str_lines:
  assumes "CHR 0x0A \<notin> set name"
  shows "in_order [''agx_'' @ name @ ''_as_str(enum agx_'' @ name @ '' x)'']
           (splitlines (print_as_str name cs @ s))"
proof -
  define mark where "mark = ''agx_'' @ name @ ''_as_str(enum agx_'' @ name @ '' x)''"
  have m: "CHR 0x0A \<notin> set mark"
    using assms by (simp add: mark_def)
  obtain rest where eq: "print_as_str name cs @ s =
      text_lines [''static inline const char *''] @ mark @ nl @ rest"
    by (simp add: print_as_str_def mark_def)
  have "splitlines (print_as_str name cs @ s) =
      splitlines (text_lines [''static inline const char *'']) @ mark # splitlines rest"
    unfolding eq
    by (simp only: splitlines_append[OF complete_text_lines] splitlines_line[OF m])
  then show ?thesis
    unfolding mark_def[symmetric] by (simp add: in_order_single)
qed

lemma group_text_lines:
  assumes "CHR 0x0A \<notin> set name"
  shows "in_order (group_marks name) (splitlines (group_text name d))"
proof -
  have 1: "in_order [''enum agx_'' @ name @ '' {'']
      (splitlines (print_enum (''agx_'' @ name) (group_enum name d) None @ nl))"
    using print_enum_lines[of "''agx_'' @ name" "group_enum name d" None nl] assms by simp
  have 2: "in_order [''agx_'' @ name @ ''_as_str(enum agx_'' @ name @ '' x)'']
      (splitlines (print_as_str name (group_cases name d) @ nl))"
    using assms by (rule print_as_str_lines)
  have "splitlines (group_text name d) =
      splitlines (print_enum (''agx_'' @ name) (group_enum name d) None @ nl)
        @ splitlines (print_as_str name (group_cases name d) @ nl)"
    unfolding group_text_def
    using splitlines_append[OF complete_nl,
        of "print_enum (''agx_'' @ name) (group_enum name d) None"
           "print_as_str name (group_cases name d) @ nl"]
    by simp
  with in_order_append[OF 1 2] show ?thesis by (simp add: group_marks_def)
qed

lemma complete_group_text: "complete (group_text name d)"
  using complete_nl[of "print_enum (''agx_'' @ name) (group_enum name d) None @ nl
      @ print_as_str name (group_cases name d)"]
  by (simp add: group_text_def)

lemma groups_section_Cons:
  "groups_section ((name, d) # enums) = group_text name d @ groups_section enums"
  by (simp add: groups_section_def)

lemma complete_groups_section: "complete (groups_section enums)"
proof (induction enums)
  case Nil
  then show ?case by (simp add: groups_section_def complete_def)
next
  case (Cons e enums)
  obtain name d where e: "e = (name, d)" by (cases e)
  show ?case
    unfolding e groups_section_Cons
    using complete_group_text Cons by (rule complete_append)
qed

lemma groups_section_lines:
  "\<forall>name \<in> set (keys enums). CHR 0x0A \<notin> set name \<Longrightarrow>
   in_order (concat (map group_marks (keys enums))) (splitlines (groups_section enums))"
proof (induction enums)
  case Nil
  then show ?case by (simp add: keys_def)
next
  case (Cons e enums)
  obtain name d where e: "e = (name, d)" by (cases e)
  have a: "in_order (group_marks name) (splitlines (group_text name d))"
    using Cons.prems e by (simp add: keys_def group_text_lines)
  have b: "in_order (concat (map group_marks (keys enums))) (splitlines (groups_section enums))"
    using Cons by (simp add: keys_def)
  show ?case
    using in_order_append[OF a b]
    by (simp add: e groups_section_Cons splitlines_append[OF complete_group_text] keys_def)
qed

lemma splitlines_text_lines0:
  "list_all (\<lambda>l. CHR 0x0A \<notin> set l) ls \<Longrightarrow> splitlines (text_lines ls) = ls"
  using splitlines_text_lines[of ls "[]"] by (simp add: splitlines_def)

lemma in_order_drop: "in_order ms ls \<Longrightarrow> in_order ms (pre @ ls)"
  using in_order_append[of "[]" pre ms ls] by simp

lemma header_guard_lines: "in_order [''#ifndef _AGX_OPCODES_''] (splitlines header_guard)"
  by (simp add: header_guard_def splitlines_text_lines0)

lemma schedule_class_lines:
  "in_order [''enum agx_schedule_class {''] (splitlines schedule_class_text)"
  by (simp add: schedule_class_text_def splitlines_text_lines0)

lemma encoding_lines: "in_order [''struct agx_encoding {''] (splitlines encoding_text)"
  by (simp add: encoding_text_def splitlines_text_lines0)

lemma opcode_info_lines: "in_order [''struct agx_opcode_info {''] (splitlines opcode_info_text)"
  by (simp add: opcode_info_text_def splitlines_text_lines0)

lemma extern_lines:
  "in_order [''extern const struct agx_opcode_info agx_opcodes_info[AGX_NUM_OPCODES];'']
     (splitlines extern_text)"
  by (simp add: extern_text_def splitlines_text_lines0)

lemma opcode_section_lines: "in_order [''enum agx_opcode {''] (splitlines (opcode_section opcodes))"
proof -
  have "in_order [''enum agx_opcode {'']
      (splitlines (print_enum ''agx_opcode'' (opcode_enum opcodes) (Some num_opcodes) @ nl))"
    using print_enum_lines[of "''agx_opcode''" "opcode_enum opcodes" "Some num_opcodes" nl]
    by simp
  then show ?thesis
    unfolding opcode_section_def listing_comment_def
    by (simp only: splitlines_append[OF complete_text_lines] in_order_drop)
qed

lemma immediate_section_lines:
  "in_order [''enum agx_immediate {''] (splitlines (immediate_section immediates))"
proof -
  have c: "complete (runtime_comment @ nl @ nl)"
    using complete_nl[of "runtime_comment @ nl"] by simp
  have "in_order [''enum agx_immediate {'']
      (splitlines (print_enum ''agx_immediate'' (immediate_enum immediates) None @ nl))"
    using print_enum_lines[of "''agx_immediate''" "immediate_enum immediates" None nl]
    by simp
  then have "in_order [''enum agx_immediate {'']
      (splitlines ((runtime_comment @ nl @ nl)
         @ print_enum ''agx_immediate'' (immediate_enum immediates) None @ nl))"
    by (simp only: splitlines_append[OF c] in_order_drop)
  then show ?thesis by (simp add: immediate_section_def)
qed

lemma complete_opcode_section: "complete (opcode_section opcodes)"
  using complete_nl[of "listing_comment
      @ print_enum ''agx_opcode'' (opcode_enum opcodes) (Some num_opcodes)"]
  by (simp add: opcode_section_def)

lemma complete_immediate_section: "complete (immediate_section immediates)"
  using complete_nl[of "runtime_comment @ nl @ nl
      @ print_enum ''agx_immediate'' (immediate_enum immediates) None"]
  by (simp add: immediate_section_def)

lemma complete_header_guard: "complete header_guard"
  by (simp add: header_guard_def complete_text_lines)

lemma complete_schedule_class_text: "complete schedule_class_text"
  by (simp add: schedule_class_text_def complete_text_lines)

lemma complete_encoding_text: "complete encoding_text"
  by (simp add: encoding_text_def complete_text_lines)

lemma complete_opcode_info_text: "complete opcode_info_text"
  by (simp add: opcode_info_text_def complete_text_lines)

lemma complete_extern_text: "complete extern_text"
  by (simp add: extern_text_def complete_text_lines)

lemma artifact_lines:
  assumes "\<forall>name \<in> set (keys enums). CHR 0x0A \<notin> set name"
  shows "in_order (section_marks enums) (splitlines (artifact opcodes immediates enums @ s))"
proof -
  have split: "splitlines (artifact opcodes immediates enums @ s) =
      splitlines header_guard @ splitlines schedule_class_text
        @ splitlines (opcode_section opcodes) @ splitlines (groups_section enums)
        @ splitlines (immediate_section immediates) @ splitlines encoding_text
        @ splitlines opcode_info_text @ splitlines extern_text @ splitlines (endif_text @ s)"
    unfolding artifact_def append_assoc
    by (simp only: splitlines_append[OF complete_header_guard]
        splitlines_append[OF complete_schedule_class_text]
        splitlines_append[OF complete_opcode_section]
        splitlines_append[OF complete_groups_section]
        splitlines_append[OF complete_immediate_section]
        splitlines_append[OF complete_encoding_text]
        splitlines_append[OF complete_opcode_info_text]
        splitlines_append[OF complete_extern_text])
  have marks: "section_marks enums =
      [''#ifndef _AGX_OPCODES_''] @ [''enum agx_schedule_class {''] @ [''enum agx_opcode {'']
        @ concat (map group_marks (keys enums))
        @ [''enum agx_immediate {''] @ [''struct agx_encoding {'']
        @ [''struct agx_opcode_info {'']
        @ [''extern const struct agx_opcode_info agx_opcodes_info[AGX_NUM_OPCODES];''] @ []"
    by (simp add: section_marks_def)
  have last: "in_order [] (splitlines (endif_text @ s))" by simp
  show ?thesis
    unfolding split marks
    by (intro in_order_append header_guard_lines schedule_class_lines opcode_section_lines
        groups_section_lines[OF assms] immediate_section_lines encoding_lines opcode_info_lines
        extern_lines last)
qed

section \<open>Failure of generation\<close>

text \<open>
  C1, as the program has it. The template checks no name. For a schema in which an opcode
  name is empty or repeated, or in which two labels of an enum group are the same once
  normalized, generation fails exactly when the immediate-kind list has 64 entries or more
  (with the assertion's error and no output); otherwise it succeeds and prints the
  artifact, the names rendered as they are given.
\<close>

theorem names_not_validated:
  assumes "name_defect opcodes enums" and "is_dict enums"
  shows "main opcodes immediates enums =
     (if length immediates < 64
      then \<lparr>stdout = artifact opcodes immediates enums @ nl, raised = None\<rparr>
      else \<lparr>stdout = [], raised = Some AssertionError\<rparr>)"
  using assms(2) by (simp add: main_artifact main_fails)

theorem names_not_validated_witness:
  "name_defect [''add'', ''add''] []
   \<and> main [''add'', ''add''] [] [] =
       \<lparr>stdout = artifact [''add'', ''add''] [] [] @ nl, raised = None\<rparr>"
  using names_not_validated[of "[''add'', ''add'']" "[]" "[]"]
  by (simp add: name_defect_def is_dict_def)

text \<open>
  C1 as stated fails: a repeated opcode name, an empty opcode name and two labels with one
  normalized form (\<open>a.b\<close> and \<open>a_b\<close>) each leave generation without an error and with
  output.
\<close>

theorem names_unchecked_counterexample:
  "name_defect [''add'', ''add''] []
   \<and> raised (main [''add'', ''add''] [] []) = None
   \<and> stdout (main [''add'', ''add''] [] []) \<noteq> []
   \<and> name_defect [''''] []
   \<and> raised (main [''''] [] []) = None
   \<and> stdout (main [''''] [] []) \<noteq> []
   \<and> name_defect [''add''] [(''g'', [(0, ''a.b''), (1, ''a_b'')])]
   \<and> raised (main [''add''] [] [(''g'', [(0, ''a.b''), (1, ''a_b'')])]) = None
   \<and> stdout (main [''add''] [] [(''g'', [(0, ''a.b''), (1, ''a_b'')])]) \<noteq> []"
  by (simp add: main_artifact is_dict_def nl_def name_defect_def items_def normalized_def
      upper_def upper_char_def replace_def)

text \<open>
  C2. A schema whose immediate-kind list has 64 entries or more makes generation fail with
  the assertion's error, and nothing at all reaches standard output; a list of exactly 63
  entries passes the strict bound \<open>< 64\<close>, and generation succeeds and prints the rendered
  text.
\<close>

theorem immediates_bound:
  "(64 \<le> length immediates \<longrightarrow>
      main opcodes immediates enums = \<lparr>stdout = [], raised = Some AssertionError\<rparr>)
   \<and> (length immediates = 63 \<longrightarrow>
      (\<exists>text. render opcodes immediates enums = Inr text
         \<and> main opcodes immediates enums = \<lparr>stdout = text @ nl, raised = None\<rparr>))"
proof (intro conjI impI)
  assume "64 \<le> length immediates"
  then have "render opcodes immediates enums = Inl AssertionError"
    by (simp add: render_fails)
  then show "main opcodes immediates enums = \<lparr>stdout = [], raised = Some AssertionError\<rparr>"
    by (simp add: main_def)
next
  assume "length immediates = 63"
  then obtain t where "render opcodes immediates enums = Inr t"
    using render_succeeds[of immediates opcodes enums] by auto
  then show "\<exists>text. render opcodes immediates enums = Inr text
      \<and> main opcodes immediates enums = \<lparr>stdout = text @ nl, raised = None\<rparr>"
    by (simp add: main_def)
qed

theorem immediates_bound_witness:
  "main [''add''] (replicate 64 ''imm'') [] = \<lparr>stdout = [], raised = Some AssertionError\<rparr>
   \<and> raised (main [''add''] (replicate 63 ''imm'') []) = None
   \<and> stdout (main [''add''] (replicate 63 ''imm'') []) \<noteq> []"
  using immediates_bound[of "replicate 64 ''imm''" "[''add'']" "[]"]
    immediates_bound[of "replicate 63 ''imm''" "[''add'']" "[]"]
  by (auto simp: nl_def)

section \<open>The order of the sections\<close>

text \<open>
  C3, as the program has it. For a schema whose \<open>enums\<close> is a dict and whose
  immediate-kind list has fewer than 64 entries, the printed artifact is made of these
  sections in exactly this order: the header guard, the schedule-class enumeration, the
  opcode enumeration with its sentinel, the enumeration and reflection function of each
  enum group in the order of the dict, the immediate bit-flag enumeration, the two record
  definitions, the extern declaration of the opcode-info table sized by the sentinel, and
  \<open>#endif\<close>. The opcode enumeration stands before the enum groups, not after the records.
  Read line by line (the names of the enum groups holding no line break), the first lines
  of the sections occur among the lines of the artifact in that same order.
\<close>

theorem section_order:
  assumes "is_dict enums" and "length immediates < 64"
  shows "main opcodes immediates enums =
     \<lparr>stdout = header_guard @ schedule_class_text @ opcode_section opcodes
          @ groups_section enums @ immediate_section immediates @ encoding_text
          @ opcode_info_text @ extern_text @ endif_text @ nl,
      raised = None\<rparr>
   \<and> ((\<forall>name \<in> set (keys enums). CHR 0x0A \<notin> set name) \<longrightarrow>
        in_order (section_marks enums) (splitlines (stdout (main opcodes immediates enums))))"
proof (intro conjI impI)
  show "main opcodes immediates enums =
     \<lparr>stdout = header_guard @ schedule_class_text @ opcode_section opcodes
          @ groups_section enums @ immediate_section immediates @ encoding_text
          @ opcode_info_text @ extern_text @ endif_text @ nl,
      raised = None\<rparr>"
    using main_artifact[OF assms] by (simp add: artifact_def)
next
  assume "\<forall>name \<in> set (keys enums). CHR 0x0A \<notin> set name"
  then have "in_order (section_marks enums)
      (splitlines (artifact opcodes immediates enums @ nl))"
    by (rule artifact_lines)
  then show "in_order (section_marks enums)
      (splitlines (stdout (main opcodes immediates enums)))"
    using main_artifact[OF assms] by simp
qed

theorem section_order_witness:
  "main [''add'', ''mov''] [''imm16''] [(''size'', [(0, ''8''), (1, ''16''), (2, ''32'')])] =
     \<lparr>stdout = header_guard @ schedule_class_text @ opcode_section [''add'', ''mov'']
          @ groups_section [(''size'', [(0, ''8''), (1, ''16''), (2, ''32'')])]
          @ immediate_section [''imm16''] @ encoding_text
          @ opcode_info_text @ extern_text @ endif_text @ nl,
      raised = None\<rparr>
   \<and> in_order
        [''#ifndef _AGX_OPCODES_'', ''enum agx_schedule_class {'', ''enum agx_opcode {'',
         ''enum agx_size {'', ''agx_size_as_str(enum agx_size x)'', ''enum agx_immediate {'',
         ''struct agx_encoding {'', ''struct agx_opcode_info {'',
         ''extern const struct agx_opcode_info agx_opcodes_info[AGX_NUM_OPCODES];'']
        (splitlines (stdout (main [''add'', ''mov''] [''imm16'']
           [(''size'', [(0, ''8''), (1, ''16''), (2, ''32'')])])))"
proof -
  have d: "is_dict [(''size'', [(0::int, ''8''), (1, ''16''), (2, ''32'')])]"
    by (simp add: is_dict_def)
  have l: "length [''imm16''] < 64"
    by simp
  have n: "\<forall>name \<in> set (keys [(''size'', [(0::int, ''8''), (1, ''16''), (2, ''32'')])]).
      CHR 0x0A \<notin> set name"
    by (simp add: keys_def)
  have m: "section_marks [(''size'', [(0, ''8''), (1, ''16''), (2, ''32'')])] =
      [''#ifndef _AGX_OPCODES_'', ''enum agx_schedule_class {'', ''enum agx_opcode {'',
       ''enum agx_size {'', ''agx_size_as_str(enum agx_size x)'', ''enum agx_immediate {'',
       ''struct agx_encoding {'', ''struct agx_opcode_info {'',
       ''extern const struct agx_opcode_info agx_opcodes_info[AGX_NUM_OPCODES];'']"
    by (simp add: section_marks_def group_marks_def keys_def)
  note t = section_order[OF d l, of "[''add'', ''mov'']"]
  from t have a: "main [''add'', ''mov''] [''imm16'']
      [(''size'', [(0, ''8''), (1, ''16''), (2, ''32'')])] =
     \<lparr>stdout = header_guard @ schedule_class_text @ opcode_section [''add'', ''mov'']
          @ groups_section [(''size'', [(0, ''8''), (1, ''16''), (2, ''32'')])]
          @ immediate_section [''imm16''] @ encoding_text
          @ opcode_info_text @ extern_text @ endif_text @ nl,
      raised = None\<rparr>"
    by (rule conjunct1)
  from t n have b: "in_order (section_marks [(''size'', [(0, ''8''), (1, ''16''), (2, ''32'')])])
      (splitlines (stdout (main [''add'', ''mov''] [''imm16'']
         [(''size'', [(0, ''8''), (1, ''16''), (2, ''32'')])])))"
    by blast
  from a b[unfolded m] show ?thesis by (rule conjI)
qed

text \<open>
  C3 as stated fails. In the artifact of the schema \<open>["add", "mov"]\<close>, \<open>["imm16"]\<close>,
  \<open>{"size": {0: "8", 1: "16", 2: "32"}}\<close> the first lines of the sections do not occur
  in the order the claim gives, where \<open>enum agx_opcode {\<close> comes after
  \<open>struct agx_opcode_info {\<close>; they do occur in the order of \<open>section_marks\<close>.
\<close>

theorem spec_order_counterexample:
  "\<not> in_order (spec_section_marks [(''size'', [(0, ''8''), (1, ''16''), (2, ''32'')])])
       (splitlines (stdout (main [''add'', ''mov''] [''imm16'']
          [(''size'', [(0, ''8''), (1, ''16''), (2, ''32'')])])))
   \<and> in_order (section_marks [(''size'', [(0, ''8''), (1, ''16''), (2, ''32'')])])
       (splitlines (stdout (main [''add'', ''mov''] [''imm16'']
          [(''size'', [(0, ''8''), (1, ''16''), (2, ''32'')])])))"
  by (simp add: main_def small_schema_text splitlines_text_lines spec_section_marks_def
      section_marks_def group_marks_def keys_def splitlines_nl)

section \<open>The reflection function of an enum group\<close>

text \<open>
  C4. For an enum group \<open>name\<close> of the schema (an entry of the dict \<open>enums\<close>, itself a
  dict whose labels are distinct once normalized, as the data model requires of a group),
  \<open>write_enum\<close> writes the enumeration of the group followed by its function
  \<open>agx_<name>_as_str\<close>, and the artifact of a schema with fewer than 64 immediate kinds
  holds exactly that text. For each item \<open>(k, v)\<close> of the group, the enumerant generated
  for the item has the value \<open>k\<close>, and the function applied to that value returns the label
  \<open>v\<close> as it was given, not its normalized form. Applied to a value that is no key of the
  group, the function reaches \<open>UNREACHABLE\<close> and returns nothing.
\<close>

theorem reflection_round_trip:
  assumes "is_dict enums" and "(name, d) \<in> set enums"
    and "is_dict d" and "distinct (map (\<lambda>(k, v). normalized v) (items d))"
  shows "write_enum enums name buf =
           Inr (buf @ print_enum (''agx_'' @ name) (group_enum name d) None @ nl
                  @ print_as_str name (group_cases name d) @ nl)
       \<and> (length immediates < 64 \<longrightarrow>
            (\<exists>pre post. render opcodes immediates enums =
               Inr (pre @ print_enum (''agx_'' @ name) (group_enum name d) None @ nl
                      @ print_as_str name (group_cases name d) @ nl @ post)))
       \<and> (\<forall>(k, v) \<in> set (items d).
            map_of (enum_values 0 (group_enum name d)) (enumerant name v) = Some k
            \<and> agx_as_str name d k = Returns v)
       \<and> (\<forall>x. x \<notin> set (keys d) \<longrightarrow> agx_as_str name d x = Unreachable ''Nonexhaustive enum'')"
proof (intro conjI ballI allI impI)
  have "getitem enums name = Inr d"
    using assms(1,2) by (rule getitem_is_dict)
  then show "write_enum enums name buf =
      Inr (buf @ print_enum (''agx_'' @ name) (group_enum name d) None @ nl
             @ print_as_str name (group_cases name d) @ nl)"
    by (simp add: write_enum_text group_text_def)
next
  assume "length immediates < 64"
  with assms(1,2) show "\<exists>pre post. render opcodes immediates enums =
      Inr (pre @ print_enum (''agx_'' @ name) (group_enum name d) None @ nl
             @ print_as_str name (group_cases name d) @ nl @ post)"
    by (rule render_holds_group)
next
  fix kv assume kv: "kv \<in> set (items d)"
  obtain k v where e: "kv = (k, v)" by (cases kv)
  have "map_of (enum_values 0 (group_enum name d)) (enumerant name v) = Some k"
    using map_of_group[of d k v name] assms(4) kv e by (simp add: group_values items_def)
  moreover have "agx_as_str name d k = Returns v"
    using find_case[of d k v name] assms(3,4) kv e
    by (simp add: agx_as_str_def run_switch_def group_values group_cases_def items_def is_dict_def)
  ultimately show "case kv of (k, v) \<Rightarrow>
      map_of (enum_values 0 (group_enum name d)) (enumerant name v) = Some k
      \<and> agx_as_str name d k = Returns v"
    using e by simp
next
  fix x assume "x \<notin> set (keys d)"
  then show "agx_as_str name d x = Unreachable ''Nonexhaustive enum''"
    by (simp add: agx_as_str_def run_switch_def group_values keys_def find_no_case)
qed

theorem reflection_round_trip_witness:
  \<open>write_enum [(''size'', [(0, ''8''), (1, ''16'')]), (''cond'', [(0, ''eq''), (2, ''lt.u''), (5, ''gt'')])]
      ''cond'' [] =
     Inr (text_lines
       [''enum agx_cond {'',
        ''   AGX_COND_EQ = 0,'',
        ''   AGX_COND_LT_U = 2,'',
        ''   AGX_COND_GT = 5,'',
        ''};'',
        '''',
        ''static inline const char *'',
        ''agx_cond_as_str(enum agx_cond x)'',
        ''{'',
        ''    switch (x) {'',
        ''    case AGX_COND_EQ: return "eq";'',
        ''    case AGX_COND_LT_U: return "lt.u";'',
        ''    case AGX_COND_GT: return "gt";'',
        ''    default: UNREACHABLE("Nonexhaustive enum");'',
        ''    }'',
        ''}'',
        ''''])
   \<and> map_of (enum_values 0 (group_enum ''cond'' [(0, ''eq''), (2, ''lt.u''), (5, ''gt'')]))
        ''AGX_COND_LT_U'' = Some 2
   \<and> agx_as_str ''cond'' [(0, ''eq''), (2, ''lt.u''), (5, ''gt'')] 2 = Returns ''lt.u''
   \<and> agx_as_str ''cond'' [(0, ''eq''), (2, ''lt.u''), (5, ''gt'')] 1
        = Unreachable ''Nonexhaustive enum''\<close>
  using reflection_round_trip[of
      "[(''size'', [(0, ''8''), (1, ''16'')]), (''cond'', [(0, ''eq''), (2, ''lt.u''), (5, ''gt'')])]"
      "''cond''" "[(0, ''eq''), (2, ''lt.u''), (5, ''gt'')]" "[]" "[]" "[]"]
  by (simp add: is_dict_def items_def keys_def normalized_def enumerant_def upper_simps
      upper_char_def replace_def print_enum_def print_enumerator_def print_as_str_def
      group_enum_def group_cases_def text_lines_def str_int_def nl_def)

section \<open>The immediate bit flags\<close>

text \<open>
  C5. For a schema with fewer than 64 immediate kinds, the kind at position \<open>i\<close> of the list
  (counted from 0) gets the flag value \<open>2 ^ i\<close>; the flags of two different positions differ
  and share no bit; and the bits in use are exactly the bits below the length of the list,
  that is, as many bits of the 64-bit mask as there are kinds. The enumeration spoken of is
  the one \<open>write_immediates\<close> writes.
\<close>

theorem immediate_flags:
  assumes "length immediates < 64"
  shows "enum_values 0 (immediate_enum immediates) =
           map (\<lambda>i. (immediate_enumerant (immediates ! i), 2 ^ i)) [0..<length immediates]
       \<and> (\<forall>i < length immediates. \<forall>j < length immediates.
             i \<noteq> j \<longrightarrow> shl1ull i \<noteq> shl1ull j \<and> shl1ull i AND shl1ull j = 0)
       \<and> (\<forall>j. bit (used_bits immediates) j \<longleftrightarrow> j < length immediates)
       \<and> used_bits immediates = mask (length immediates)
       \<and> write_immediates immediates buf =
           buf @ print_enum ''agx_immediate'' (immediate_enum immediates) None @ nl"
proof (intro conjI allI impI)
  show "enum_values 0 (immediate_enum immediates) =
      map (\<lambda>i. (immediate_enumerant (immediates ! i), 2 ^ i)) [0..<length immediates]"
    using assms by (rule immediate_values)
next
  fix i j :: nat assume "i < length immediates" "j < length immediates" "i \<noteq> j"
  then have "i < 64" using assms by simp
  then have "bit (shl1ull i) i" by (simp add: bit_shl1ull)
  moreover have "\<not> bit (shl1ull j) i" using \<open>i \<noteq> j\<close> by (simp add: bit_shl1ull)
  ultimately show "shl1ull i \<noteq> shl1ull j" by auto
next
  fix i j :: nat assume "i \<noteq> j"
  then show "shl1ull i AND shl1ull j = 0" by (rule shl1ull_disjoint)
next
  fix j show "bit (used_bits immediates) j \<longleftrightarrow> j < length immediates"
    using assms by (rule bit_used_bits)
next
  show "used_bits immediates = mask (length immediates)"
    using assms by (rule used_bits_mask)
next
  show "write_immediates immediates buf =
      buf @ print_enum ''agx_immediate'' (immediate_enum immediates) None @ nl"
    by (rule write_immediates_text)
qed

theorem immediate_flags_witness:
  "enum_values 0 (immediate_enum [''imm16'', ''round'', ''mask'']) =
     [(''AGX_IMMEDIATE_IMM16'', 1), (''AGX_IMMEDIATE_ROUND'', 2), (''AGX_IMMEDIATE_MASK'', 4)]
   \<and> used_bits [''imm16'', ''round'', ''mask''] = 7"
  using immediate_flags[of "[''imm16'', ''round'', ''mask'']" "[]"]
  by (simp add: immediate_enumerant_def upper_simps upper_char_def upt_conv_Cons mask_eq_exp_minus_1)

section \<open>The opcode enumeration\<close>

text \<open>
  C6. For a schema whose opcode names are distinct, the opcode enumeration has one enumerant
  for each opcode name, in the order of the list and numbered from 0, and ends with the
  sentinel \<open>AGX_NUM_OPCODES\<close>, whose value is the number of distinct opcode names. The
  enumeration spoken of is the one \<open>write_opcodes\<close> writes.
\<close>

theorem opcode_enumeration:
  assumes "distinct opcodes"
  shows "enum_values 0 (all_enumerators (opcode_enum opcodes) (Some num_opcodes)) =
           map (\<lambda>i. (opcode_enumerant (opcodes ! i), int i)) [0..<length opcodes]
             @ [(''AGX_NUM_OPCODES'', int (card (set opcodes)))]
       \<and> write_opcodes opcodes buf =
           buf @ print_enum ''agx_opcode'' (opcode_enum opcodes) (Some num_opcodes) @ nl"
  using assms by (simp add: opcode_values write_opcodes_text distinct_card)

theorem opcode_enumeration_witness:
  "enum_values 0 (all_enumerators (opcode_enum [''add'', ''mov'', ''fma'']) (Some num_opcodes)) =
     [(''AGX_OPCODE_ADD'', 0), (''AGX_OPCODE_MOV'', 1), (''AGX_OPCODE_FMA'', 2),
      (''AGX_NUM_OPCODES'', 3)]"
  using opcode_enumeration[of "[''add'', ''mov'', ''fma'']" "[]"]
  by (simp add: opcode_enumerant_def upper_simps upper_char_def upt_conv_Cons)

section \<open>A small schema\<close>

text \<open>
  C8. For the opcode list \<open>["add", "mov"]\<close>, the immediate list \<open>["imm16"]\<close> and the enum
  group \<open>{"size": {0: "8", 1: "16", 2: "32"}}\<close>, generation succeeds and prints exactly
  the text below. That text is the fixed sections together with the opcode enumeration of
  the enumerants for \<open>ADD\<close> and \<open>MOV\<close> and the sentinel, the enumeration with
  \<open>SIZE_8 = 0\<close>, \<open>SIZE_16 = 1\<close>, \<open>SIZE_32 = 2\<close>, the reflection function with a case
  for each of them, and the immediate enumeration with the flag for \<open>IMM16\<close>. In the
  enumerations so printed the sentinel has the value 2 and the flag the value 1, and the
  function so printed maps the value of \<open>AGX_SIZE_16\<close> to \<open>"16"\<close>. Every generated name
  carries the prefix \<open>AGX_\<close> and the name of its enumeration.
\<close>

theorem small_schema_artifact:
  \<open>main [''add'', ''mov''] [''imm16''] [(''size'', [(0, ''8''), (1, ''16''), (2, ''32'')])] =
     \<lparr>stdout = (text_lines
         [''/*'',
          '' * Copyright 2021 Alyssa Rosenzweig'',
          '' * SPDX-License-Identifier: MIT'',
          '' */'',
          '''',
          ''#ifndef _AGX_OPCODES_'',
          ''#define _AGX_OPCODES_'',
          '''',
          ''#include <stdbool.h>'',
          ''#include <stdint.h>'',
          ''#include "util/macros.h"'',
          '''',
          ''enum agx_schedule_class {'',
          ''   AGX_SCHEDULE_CLASS_INVALID,'',
          ''   AGX_SCHEDULE_CLASS_NONE,'',
          ''   AGX_SCHEDULE_CLASS_LOAD,'',
          ''   AGX_SCHEDULE_CLASS_STORE,'',
          ''   AGX_SCHEDULE_CLASS_ATOMIC,'',
          ''   AGX_SCHEDULE_CLASS_COVERAGE,'',
          ''   AGX_SCHEDULE_CLASS_PRELOAD,'',
          ''   AGX_SCHEDULE_CLASS_BARRIER,'',
          ''};'',
          '''',
          ''/* Listing of opcodes */'',
          '''',
          ''enum agx_opcode {'',
          ''   AGX_OPCODE_ADD,'',
          ''   AGX_OPCODE_MOV,'',
          ''   AGX_NUM_OPCODES'',
          ''};'',
          '''',
          ''enum agx_size {'',
          ''   AGX_SIZE_8 = 0,'',
          ''   AGX_SIZE_16 = 1,'',
          ''   AGX_SIZE_32 = 2,'',
          ''};'',
          '''',
          ''static inline const char *'',
          ''agx_size_as_str(enum agx_size x)'',
          ''{'',
          ''    switch (x) {'',
          ''    case AGX_SIZE_8: return "8";'',
          ''    case AGX_SIZE_16: return "16";'',
          ''    case AGX_SIZE_32: return "32";'',
          ''    default: UNREACHABLE("Nonexhaustive enum");'',
          ''    }'',
          ''}'',
          '''',
          '''',
          ''/* Runtime accessible info on each defined opcode */'',
          '''',
          '''',
          '''',
          ''enum agx_immediate {'',
          ''   AGX_IMMEDIATE_IMM16 = (1ull << 0),'',
          ''};'',
          '''',
          ''struct agx_encoding {'',
          ''   uint64_t exact;'',
          ''   unsigned length_short : 4;'',
          ''   bool extensible : 1;'',
          ''};'',
          '''',
          ''struct agx_opcode_info {'',
          ''   const char *name;'',
          ''   unsigned nr_srcs;'',
          ''   unsigned nr_dests;'',
          ''   uint64_t immediates;'',
          ''   struct agx_encoding encoding;'',
          ''   enum agx_schedule_class schedule_class;'',
          ''   bool is_float : 1;'',
          ''   bool can_eliminate : 1;'',
          ''   bool can_reorder : 1;'',
          ''};'',
          '''',
          ''extern const struct agx_opcode_info agx_opcodes_info[AGX_NUM_OPCODES];'',
          '''',
          ''#endif'']) @ nl, raised = None\<rparr>
   \<and> stdout (main [''add'', ''mov''] [''imm16''] [(''size'', [(0, ''8''), (1, ''16''), (2, ''32'')])]) =
       header_guard @ schedule_class_text @ listing_comment
         @ print_enum ''agx_opcode''
             [(''AGX_OPCODE_ADD'', Implicit), (''AGX_OPCODE_MOV'', Implicit)]
             (Some (''AGX_NUM_OPCODES'', Implicit)) @ nl
         @ print_enum ''agx_size''
             [(''AGX_SIZE_8'', IntConst 0), (''AGX_SIZE_16'', IntConst 1),
              (''AGX_SIZE_32'', IntConst 2)] None @ nl
         @ print_as_str ''size''
             [(''AGX_SIZE_8'', ''8''), (''AGX_SIZE_16'', ''16''), (''AGX_SIZE_32'', ''32'')] @ nl
         @ runtime_comment @ nl @ nl
         @ print_enum ''agx_immediate'' [(''AGX_IMMEDIATE_IMM16'', Shl1ull 0)] None @ nl
         @ encoding_text @ opcode_info_text @ extern_text @ endif_text @ nl
   \<and> enum_values 0
         [(''AGX_OPCODE_ADD'', Implicit), (''AGX_OPCODE_MOV'', Implicit),
          (''AGX_NUM_OPCODES'', Implicit)] =
       [(''AGX_OPCODE_ADD'', 0), (''AGX_OPCODE_MOV'', 1), (''AGX_NUM_OPCODES'', 2)]
   \<and> enum_values 0 [(''AGX_IMMEDIATE_IMM16'', Shl1ull 0)] = [(''AGX_IMMEDIATE_IMM16'', 1)]
   \<and> enum_values 0
         [(''AGX_SIZE_8'', IntConst 0), (''AGX_SIZE_16'', IntConst 1),
          (''AGX_SIZE_32'', IntConst 2)] =
       [(''AGX_SIZE_8'', 0), (''AGX_SIZE_16'', 1), (''AGX_SIZE_32'', 2)]
   \<and> run_switch
         [(''AGX_SIZE_8'', 0), (''AGX_SIZE_16'', 1), (''AGX_SIZE_32'', 2)]
         [(''AGX_SIZE_8'', ''8''), (''AGX_SIZE_16'', ''16''), (''AGX_SIZE_32'', ''32'')] 1 =
       Returns ''16''\<close>
proof (intro conjI)
  show \<open>main [''add'', ''mov''] [''imm16''] [(''size'', [(0, ''8''), (1, ''16''), (2, ''32'')])] =
     \<lparr>stdout = (text_lines
         [''/*'',
          '' * Copyright 2021 Alyssa Rosenzweig'',
          '' * SPDX-License-Identifier: MIT'',
          '' */'',
          '''',
          ''#ifndef _AGX_OPCODES_'',
          ''#define _AGX_OPCODES_'',
          '''',
          ''#include <stdbool.h>'',
          ''#include <stdint.h>'',
          ''#include "util/macros.h"'',
          '''',
          ''enum agx_schedule_class {'',
          ''   AGX_SCHEDULE_CLASS_INVALID,'',
          ''   AGX_SCHEDULE_CLASS_NONE,'',
          ''   AGX_SCHEDULE_CLASS_LOAD,'',
          ''   AGX_SCHEDULE_CLASS_STORE,'',
          ''   AGX_SCHEDULE_CLASS_ATOMIC,'',
          ''   AGX_SCHEDULE_CLASS_COVERAGE,'',
          ''   AGX_SCHEDULE_CLASS_PRELOAD,'',
          ''   AGX_SCHEDULE_CLASS_BARRIER,'',
          ''};'',
          '''',
          ''/* Listing of opcodes */'',
          '''',
          ''enum agx_opcode {'',
          ''   AGX_OPCODE_ADD,'',
          ''   AGX_OPCODE_MOV,'',
          ''   AGX_NUM_OPCODES'',
          ''};'',
          '''',
          ''enum agx_size {'',
          ''   AGX_SIZE_8 = 0,'',
          ''   AGX_SIZE_16 = 1,'',
          ''   AGX_SIZE_32 = 2,'',
          ''};'',
          '''',
          ''static inline const char *'',
          ''agx_size_as_str(enum agx_size x)'',
          ''{'',
          ''    switch (x) {'',
          ''    case AGX_SIZE_8: return "8";'',
          ''    case AGX_SIZE_16: return "16";'',
          ''    case AGX_SIZE_32: return "32";'',
          ''    default: UNREACHABLE("Nonexhaustive enum");'',
          ''    }'',
          ''}'',
          '''',
          '''',
          ''/* Runtime accessible info on each defined opcode */'',
          '''',
          '''',
          '''',
          ''enum agx_immediate {'',
          ''   AGX_IMMEDIATE_IMM16 = (1ull << 0),'',
          ''};'',
          '''',
          ''struct agx_encoding {'',
          ''   uint64_t exact;'',
          ''   unsigned length_short : 4;'',
          ''   bool extensible : 1;'',
          ''};'',
          '''',
          ''struct agx_opcode_info {'',
          ''   const char *name;'',
          ''   unsigned nr_srcs;'',
          ''   unsigned nr_dests;'',
          ''   uint64_t immediates;'',
          ''   struct agx_encoding encoding;'',
          ''   enum agx_schedule_class schedule_class;'',
          ''   bool is_float : 1;'',
          ''   bool can_eliminate : 1;'',
          ''   bool can_reorder : 1;'',
          ''};'',
          '''',
          ''extern const struct agx_opcode_info agx_opcodes_info[AGX_NUM_OPCODES];'',
          '''',
          ''#endif'']) @ nl, raised = None\<rparr>\<close>
    by (simp add: main_def small_schema_text)
next
  have "stdout (main [''add'', ''mov''] [''imm16''] [(''size'', [(0, ''8''), (1, ''16''), (2, ''32'')])]) =
      artifact [''add'', ''mov''] [''imm16''] [(''size'', [(0, ''8''), (1, ''16''), (2, ''32'')])] @ nl"
    by (simp add: main_artifact is_dict_def)
  also have "artifact [''add'', ''mov''] [''imm16''] [(''size'', [(0, ''8''), (1, ''16''), (2, ''32'')])] @ nl =
       header_guard @ schedule_class_text @ listing_comment
         @ print_enum ''agx_opcode''
             [(''AGX_OPCODE_ADD'', Implicit), (''AGX_OPCODE_MOV'', Implicit)]
             (Some (''AGX_NUM_OPCODES'', Implicit)) @ nl
         @ print_enum ''agx_size''
             [(''AGX_SIZE_8'', IntConst 0), (''AGX_SIZE_16'', IntConst 1),
              (''AGX_SIZE_32'', IntConst 2)] None @ nl
         @ print_as_str ''size''
             [(''AGX_SIZE_8'', ''8''), (''AGX_SIZE_16'', ''16''), (''AGX_SIZE_32'', ''32'')] @ nl
         @ runtime_comment @ nl @ nl
         @ print_enum ''agx_immediate'' [(''AGX_IMMEDIATE_IMM16'', Shl1ull 0)] None @ nl
         @ encoding_text @ opcode_info_text @ extern_text @ endif_text @ nl"
    by (simp add: artifact_def opcode_section_def groups_section_def group_text_def
        immediate_section_def opcode_enum_def num_opcodes_def opcode_enumerant_def
        group_enum_def group_cases_def enumerant_def normalized_def replace_def items_def
        immediate_enum_def immediate_enumerant_def enumerate_eq_zip upper_simps upper_char_def)
  finally show "stdout (main [''add'', ''mov''] [''imm16''] [(''size'', [(0, ''8''), (1, ''16''), (2, ''32'')])]) =
       header_guard @ schedule_class_text @ listing_comment
         @ print_enum ''agx_opcode''
             [(''AGX_OPCODE_ADD'', Implicit), (''AGX_OPCODE_MOV'', Implicit)]
             (Some (''AGX_NUM_OPCODES'', Implicit)) @ nl
         @ print_enum ''agx_size''
             [(''AGX_SIZE_8'', IntConst 0), (''AGX_SIZE_16'', IntConst 1),
              (''AGX_SIZE_32'', IntConst 2)] None @ nl
         @ print_as_str ''size''
             [(''AGX_SIZE_8'', ''8''), (''AGX_SIZE_16'', ''16''), (''AGX_SIZE_32'', ''32'')] @ nl
         @ runtime_comment @ nl @ nl
         @ print_enum ''agx_immediate'' [(''AGX_IMMEDIATE_IMM16'', Shl1ull 0)] None @ nl
         @ encoding_text @ opcode_info_text @ extern_text @ endif_text @ nl" .
next
  show "enum_values 0
         [(''AGX_OPCODE_ADD'', Implicit), (''AGX_OPCODE_MOV'', Implicit),
          (''AGX_NUM_OPCODES'', Implicit)] =
       [(''AGX_OPCODE_ADD'', 0), (''AGX_OPCODE_MOV'', 1), (''AGX_NUM_OPCODES'', 2)]"
    by simp
next
  show "enum_values 0 [(''AGX_IMMEDIATE_IMM16'', Shl1ull 0)] = [(''AGX_IMMEDIATE_IMM16'', 1)]"
    by (simp add: shl1ull_def)
next
  show "enum_values 0
         [(''AGX_SIZE_8'', IntConst 0), (''AGX_SIZE_16'', IntConst 1),
          (''AGX_SIZE_32'', IntConst 2)] =
       [(''AGX_SIZE_8'', 0), (''AGX_SIZE_16'', 1), (''AGX_SIZE_32'', 2)]"
    by simp
next
  show "run_switch
         [(''AGX_SIZE_8'', 0), (''AGX_SIZE_16'', 1), (''AGX_SIZE_32'', 2)]
         [(''AGX_SIZE_8'', ''8''), (''AGX_SIZE_16'', ''16''), (''AGX_SIZE_32'', ''32'')] 1 =
       Returns ''16''"
    by (simp add: run_switch_def)
qed

section \<open>Dots in opcode names\<close>

text \<open>
  C9. An opcode name becomes its enumerant by upper-casing alone: the enumerant is
  \<open>AGX_OPCODE_\<close> followed by the upper-cased name, upper-casing keeps every dot where it
  is, so a name with a dot gives an enumerant with that dot; the label of an enum group, by
  contrast, has no dot left once normalized.
\<close>

theorem opcode_dots_kept:
  "write_opcodes opcodes buf =
     buf @ text_lines [''enum agx_opcode {'']
       @ concat (map (\<lambda>op. ''   '' @ opcode_enumerant op @ '','' @ nl) opcodes)
       @ text_lines [''   AGX_NUM_OPCODES'', ''};'', '''']
   \<and> opcode_enumerant op = ''AGX_OPCODE_'' @ upper op
   \<and> length (upper op) = length op
   \<and> (\<forall>j < length op. upper op ! j = CHR ''.'' \<longleftrightarrow> op ! j = CHR ''.'')
   \<and> (CHR ''.'' \<in> set op \<longrightarrow> CHR ''.'' \<in> set (opcode_enumerant op))
   \<and> CHR ''.'' \<notin> set (normalized v)"
proof (intro conjI allI impI)
  show "write_opcodes opcodes buf =
     buf @ text_lines [''enum agx_opcode {'']
       @ concat (map (\<lambda>op. ''   '' @ opcode_enumerant op @ '','' @ nl) opcodes)
       @ text_lines [''   AGX_NUM_OPCODES'', ''};'', '''']"
    by (simp add: write_opcodes_def Let_def fold_writer writer_def opcode_enumerant_def
        text_lines_def)
next
  show "opcode_enumerant op = ''AGX_OPCODE_'' @ upper op"
    by (simp add: opcode_enumerant_def)
next
  show "length (upper op) = length op"
    by (simp add: upper_def)
next
  fix j assume "j < length op"
  then show "upper op ! j = CHR ''.'' \<longleftrightarrow> op ! j = CHR ''.''"
    by (simp add: upper_def upper_char_dot)
next
  assume "CHR ''.'' \<in> set op"
  then show "CHR ''.'' \<in> set (opcode_enumerant op)"
    by (simp add: opcode_enumerant_def dot_upper)
next
  show "CHR ''.'' \<notin> set (normalized v)"
    by (rule no_dot_normalized)
qed

theorem opcode_dots_kept_witness:
  "opcode_enumerant ''ld.var'' = ''AGX_OPCODE_LD.VAR''
   \<and> CHR ''.'' \<in> set (opcode_enumerant ''ld.var'')
   \<and> normalized ''ld.var'' = ''LD_VAR''
   \<and> write_opcodes [''ld.var''] [] =
        text_lines [''enum agx_opcode {'', ''   AGX_OPCODE_LD.VAR,'', ''   AGX_NUM_OPCODES'',
          ''};'', '''']"
  using opcode_dots_kept[of "[''ld.var'']" "[]" "''ld.var''" "''ld.var''"]
  by (simp add: upper_simps upper_char_def normalized_def replace_def text_lines_def)

section \<open>The schedule classes\<close>

text \<open>
  C10. The schedule-class enumeration is fixed text of the template: it has exactly 8
  members, \<open>AGX_SCHEDULE_CLASS_INVALID\<close> first and so of value 0, then \<open>NONE\<close>, \<open>LOAD\<close>,
  \<open>STORE\<close>, \<open>ATOMIC\<close>, \<open>COVERAGE\<close>, \<open>PRELOAD\<close>, \<open>BARRIER\<close> with the values 1 to 7, and
  every artifact, whatever the schema, begins with the header guard followed by this
  enumeration.
\<close>

theorem schedule_classes:
  "schedule_class_text = print_enum ''agx_schedule_class'' schedule_class_enum None @ nl
   \<and> length schedule_class_enum = 8
   \<and> enum_values 0 schedule_class_enum =
       [(''AGX_SCHEDULE_CLASS_INVALID'', 0),
        (''AGX_SCHEDULE_CLASS_NONE'', 1),
        (''AGX_SCHEDULE_CLASS_LOAD'', 2),
        (''AGX_SCHEDULE_CLASS_STORE'', 3),
        (''AGX_SCHEDULE_CLASS_ATOMIC'', 4),
        (''AGX_SCHEDULE_CLASS_COVERAGE'', 5),
        (''AGX_SCHEDULE_CLASS_PRELOAD'', 6),
        (''AGX_SCHEDULE_CLASS_BARRIER'', 7)]
   \<and> (length immediates < 64 \<longrightarrow>
        (\<exists>rest. render opcodes immediates enums =
           Inr (header_guard @ schedule_class_text @ rest)))"
proof (intro conjI impI)
  show "schedule_class_text = print_enum ''agx_schedule_class'' schedule_class_enum None @ nl"
    by (simp add: schedule_class_text_def schedule_class_enum_def print_enum_def
        print_enumerator_def text_lines_def)
next
  show "length schedule_class_enum = 8"
    by (simp add: schedule_class_enum_def)
next
  show "enum_values 0 schedule_class_enum =
       [(''AGX_SCHEDULE_CLASS_INVALID'', 0),
        (''AGX_SCHEDULE_CLASS_NONE'', 1),
        (''AGX_SCHEDULE_CLASS_LOAD'', 2),
        (''AGX_SCHEDULE_CLASS_STORE'', 3),
        (''AGX_SCHEDULE_CLASS_ATOMIC'', 4),
        (''AGX_SCHEDULE_CLASS_COVERAGE'', 5),
        (''AGX_SCHEDULE_CLASS_PRELOAD'', 6),
        (''AGX_SCHEDULE_CLASS_BARRIER'', 7)]"
    by (simp add: schedule_class_enum_def)
next
  assume "length immediates < 64"
  then show "\<exists>rest. render opcodes immediates enums =
      Inr (header_guard @ schedule_class_text @ rest)"
    by (rule render_prefix)
qed

theorem schedule_classes_witness:
  "\<exists>rest. render [''add''] [''imm16''] [(''size'', [(0, ''8'')])] =
     Inr (header_guard @ schedule_class_text @ rest)"
  using schedule_classes[of "[''imm16'']" "[''add'']" "[(''size'', [(0, ''8'')])]"]
  by simp

end
